theory Spec2Isabelle
  imports Main
begin

section \<open>Data model of the connection layer\<close>

text \<open>
  The records below follow the declarations of the connection file of the broker:
  \<^verbatim>\<open>PeerDoc\<close> (what is stored per fingerprint), \<^verbatim>\<open>StatusMessage\<close> and
  \<^verbatim>\<open>Peer\<close>. A Go \<^verbatim>\<open>map[string]string\<close> is a partial function on strings. The
  \<^verbatim>\<open>send\<close> channel of a peer carries \<^verbatim>\<open>interface{}\<close> values: status messages
  and request mappings. The websocket handle is \<open>None\<close> while no socket has been
  attached (a nil pointer), likewise the persisted document \<open>pd\<close>. The back pointer
  \<^verbatim>\<open>hub\<close> of a peer is left out: there is one hub, and the functions that talk to it
  record their sends as events.
\<close>

type_synonym message = "string \<rightharpoonup> string"

record PeerDoc =
  user :: string
  fingerprint :: string
  name :: string
  kind :: string

record StatusMessage =
  status_code :: int
  description :: string

datatype outbound = Status StatusMessage | Request message

record Peer =
  ws :: "nat option"
  send :: "outbound list"
  authenticated :: bool
  pd :: "PeerDoc option"

definition maxMessageSize :: nat where
  "maxMessageSize = 512"

definition SendCap :: nat where
  "SendCap = 8"

section \<open>The read task\<close>

text \<open>
  What a call of \<^verbatim>\<open>ReadJSON(&message)\<close> can deliver: a JSON object of strings, the JSON
  value \<^verbatim>\<open>null\<close> (decoding it sets the map to nil and reports no error), or an error.
  Every failure of the read is an error value: a payload that does not decode into
  the map, a frame above the read limit, the read deadline passing with no pong, and
  the remote side closing.
\<close>

datatype read_error = Malformed | TooLarge | DeadlineExpired | RemoteClose

datatype read_result = Frame message | Null | ReadErr read_error

datatype panic = NilPointerDereference | AssignToNilMap

datatype outcome = Returned | Panicked panic | Blocked

text \<open>
  What goes over the socket as JSON text: an object with its members in order, or the
  object of a string map.
\<close>

datatype json_value = JNumber int | JString string

datatype json = JObject "(string \<times> json_value) list" | JMap message

text \<open>
  The events of the two tasks of a peer: calls on the socket, sends to the hub, and
  the ticker of the write task. A write carries whether it succeeded.
\<close>

datatype event =
    SetReadLimit nat
  | SetReadDeadline
  | SetPongHandler
  | HubRequest message
  | HubUnregister
  | NewTicker
  | TickerStop
  | SetWriteDeadline
  | WriteJSON json bool
  | WriteCloseMessage
  | WritePingMessage bool
  | LogWarn
  | WsClose

text \<open>
  Decoding into the variable \<^verbatim>\<open>message\<close>, which lives across iterations: an object is
  stored into the map that is already there (a nil map is allocated first), so
  entries of earlier frames stay; \<^verbatim>\<open>null\<close> makes the variable nil.
\<close>

fun ReadJSON :: "message option \<Rightarrow> read_result \<Rightarrow> message option" where
  "ReadJSON None (Frame f) = Some f"
| "ReadJSON (Some m) (Frame f) = Some (m ++ f)"
| "ReadJSON msg Null = None"
| "ReadJSON msg (ReadErr e) = msg"

text \<open>
  The loop of \<^verbatim>\<open>readPump\<close> over the results the socket delivers. An error breaks the
  loop. Otherwise \<^verbatim>\<open>p.pd.fingerprint\<close> is evaluated (a nil \<open>pd\<close> panics), then
  assigned into the map (a nil map panics), then \<^verbatim>\<open>source_name\<close>, and the map is sent
  to the hub. With no further result the task is blocked in the read. The event
  \<open>HubRequest\<close> records what the map holds at the moment of the send; the map itself
  is shared with the hub, which \<open>readShared\<close> below follows.
\<close>

fun readLoop :: "PeerDoc option \<Rightarrow> message option \<Rightarrow> read_result list \<Rightarrow> event list \<times> outcome" where
  "readLoop d msg [] = ([], Blocked)"
| "readLoop d msg (ReadErr e # rs) = ([], Returned)"
| "readLoop d msg (r # rs) =
     (case d of
        None \<Rightarrow> ([], Panicked NilPointerDereference)
      | Some doc \<Rightarrow>
          (case ReadJSON msg r of
             None \<Rightarrow> ([], Panicked AssignToNilMap)
           | Some m \<Rightarrow>
               (let m' = m(''source_fp'' \<mapsto> fingerprint doc, ''source_name'' \<mapsto> name doc);
                    (ev, out) = readLoop d (Some m') rs
                in (HubRequest m' # ev, out))))"

text \<open>
  \<^verbatim>\<open>readPump\<close>: the deferred function (send the peer on \<^verbatim>\<open>unregister\<close>, then close the
  socket) runs when the loop is left, by \<^verbatim>\<open>break\<close> or by a panic. On a peer without
  socket the first call on the socket panics, and so does the \<^verbatim>\<open>Close\<close> of the
  deferred function, after its send to the hub.
\<close>

definition readPump :: "Peer \<Rightarrow> read_result list \<Rightarrow> event list \<times> outcome" where
  "readPump p rs =
     (case ws p of
        None \<Rightarrow> ([HubUnregister], Panicked NilPointerDereference)
      | Some c \<Rightarrow>
          (let (ev, out) = readLoop (pd p) None rs;
               pre = [SetReadLimit maxMessageSize, SetReadDeadline, SetPongHandler]
           in if out = Blocked then (pre @ ev, Blocked)
              else (pre @ ev @ [HubUnregister, WsClose], out)))"

text \<open>
  The map behind the variable \<^verbatim>\<open>message\<close> is one object: the variable is declared
  before the loop, the decoder stores each object into the map the variable points
  to, and the send on the channel hands that map, not a copy, to the hub. The state
  below keeps the maps by address: \<open>heap\<close> holds the maps allocated so far,
  \<open>var\<close> is the variable (nil, or the address of its map), and \<open>sent\<close> lists the
  addresses sent to the hub. What the hub holds at a moment is what these addresses
  point to at that moment.
\<close>

record read_state =
  heap :: "message list"
  var :: "nat option"
  sent :: "nat list"

definition hub_view :: "read_state \<Rightarrow> message list" where
  "hub_view s = map (\<lambda>a. heap s ! a) (sent s)"

text \<open>
  Decoding an object: into the map of the variable, or into a new map when the
  variable is nil. The address of the map is returned with the state.
\<close>

definition decode :: "read_state \<Rightarrow> message \<Rightarrow> read_state \<times> nat" where
  "decode s f =
     (case var s of
        None \<Rightarrow> (s\<lparr>heap := heap s @ [f], var := Some (length (heap s))\<rparr>, length (heap s))
      | Some a \<Rightarrow> (s\<lparr>heap := (heap s)[a := (heap s ! a) ++ f]\<rparr>, a))"

definition assign :: "read_state \<Rightarrow> nat \<Rightarrow> string \<Rightarrow> string \<Rightarrow> read_state" where
  "assign s a k v = s\<lparr>heap := (heap s)[a := (heap s ! a)(k \<mapsto> v)]\<rparr>"

text \<open>
  The loop of \<^verbatim>\<open>readPump\<close> on this state, giving what the hub holds after each step
  of an iteration: after the frame is decoded, after each of the two assignments,
  and after the send. The loop ends as \<open>readLoop\<close> does: on an error, on \<^verbatim>\<open>null\<close>
  (the variable becomes nil and an assignment panics), and on a nil \<open>pd\<close>.
\<close>

datatype 'a step = AfterDecode 'a | AfterAssign 'a | AfterSend 'a

fun readShared :: "PeerDoc option \<Rightarrow> read_state \<Rightarrow> read_result list \<Rightarrow> message list step list" where
  "readShared d s [] = []"
| "readShared d s (ReadErr e # rs) = []"
| "readShared d s (Null # rs) = [AfterDecode (hub_view (s\<lparr>var := None\<rparr>))]"
| "readShared d s (Frame f # rs) =
     (let (s1, a) = decode s f in
      case d of
        None \<Rightarrow> [AfterDecode (hub_view s1)]
      | Some doc \<Rightarrow>
          (let s2 = assign s1 a ''source_fp'' (fingerprint doc);
               s3 = assign s2 a ''source_name'' (name doc);
               s4 = s3\<lparr>sent := sent s3 @ [a]\<rparr>
           in AfterDecode (hub_view s1) # AfterAssign (hub_view s2) # AfterAssign (hub_view s3)
                # AfterSend (hub_view s4) # readShared d s4 rs))"

text \<open>The messages the hub holds right after each send, the newest last.\<close>

fun after_sends :: "'a step list \<Rightarrow> 'a list" where
  "after_sends [] = []"
| "after_sends (AfterSend v # xs) = v # after_sends xs"
| "after_sends (x # xs) = after_sends xs"

text \<open>The messages of the events \<open>HubRequest\<close> of a run, in order.\<close>

fun requests :: "event list \<Rightarrow> message list" where
  "requests [] = []"
| "requests (HubRequest m # ev) = m # requests ev"
| "requests (e # ev) = requests ev"

text \<open>
  The variable of \<open>readLoop\<close> and the state of \<open>readShared\<close> stand for the same map:
  both nil, or the address of the state points to the map of the variable.
\<close>

definition same_map :: "read_state \<Rightarrow> message option \<Rightarrow> bool" where
  "same_map s msg =
     (case msg of
        None \<Rightarrow> var s = None
      | Some m \<Rightarrow> (case var s of None \<Rightarrow> False | Some a \<Rightarrow> a < length (heap s) \<and> heap s ! a = m))"

section \<open>The write task\<close>

text \<open>
  \<^verbatim>\<open>WriteJSON\<close> encodes with the JSON encoder of the Go library. A struct is encoded
  as an object with one member for each exported field, named after the field; a
  field is exported when its name starts with an upper-case letter. A string map is
  encoded as the object of its entries.
\<close>

definition exported :: "string \<Rightarrow> bool" where
  "exported n = (case n of [] \<Rightarrow> False | c # cs \<Rightarrow> c \<in> set ''ABCDEFGHIJKLMNOPQRSTUVWXYZ'')"

definition StatusMessage_fields :: "StatusMessage \<Rightarrow> (string \<times> json_value) list" where
  "StatusMessage_fields m =
     [(''status_code'', JNumber (status_code m)), (''description'', JString (description m))]"

fun Marshal :: "outbound \<Rightarrow> json" where
  "Marshal (Status m) = JObject (filter (\<lambda>(n, v). exported n) (StatusMessage_fields m))"
| "Marshal (Request m) = JMap m"

text \<open>
  What the \<^verbatim>\<open>select\<close> of \<^verbatim>\<open>writePump\<close> can take: a value received from the channel
  of the peer, with whether writing it to the socket succeeds; the channel found
  closed; a tick, with whether writing the ping succeeds.
\<close>

datatype write_input = QueueMsg outbound bool | QueueClosed | Tick bool

text \<open>
  The loop of \<^verbatim>\<open>writePump\<close>. A closed channel: a close message is written and the
  function returns. A message: it is written; on failure a warning is logged and
  the loop goes on (\<^verbatim>\<open>continue\<close>). A tick: the ping is written; on failure the
  function returns. With nothing to take the task is blocked in the \<^verbatim>\<open>select\<close>.
\<close>

fun writeLoop :: "write_input list \<Rightarrow> event list \<times> outcome" where
  "writeLoop [] = ([], Blocked)"
| "writeLoop (QueueClosed # es) = ([SetWriteDeadline, WriteCloseMessage], Returned)"
| "writeLoop (QueueMsg m ok # es) =
     (let (ev, out) = writeLoop es
      in (if ok then SetWriteDeadline # WriteJSON (Marshal m) True # ev
          else SetWriteDeadline # WriteJSON (Marshal m) False # LogWarn # ev, out))"
| "writeLoop (Tick ok # es) =
     (if ok then (let (ev, out) = writeLoop es
                  in (SetWriteDeadline # WritePingMessage True # ev, out))
      else ([SetWriteDeadline, WritePingMessage False], Returned))"

text \<open>
  \<^verbatim>\<open>writePump\<close>: a ticker is made, and the deferred function stops it and closes the
  socket. On a peer without socket the first call on the socket panics, and so does
  the \<^verbatim>\<open>Close\<close> of the deferred function.
\<close>

definition writePump :: "Peer \<Rightarrow> write_input list \<Rightarrow> event list \<times> outcome" where
  "writePump p es =
     (case ws p of
        None \<Rightarrow> (if es = [] then ([NewTicker], Blocked)
                 else ([NewTicker, TickerStop], Panicked NilPointerDereference))
      | Some c \<Rightarrow>
          (let (ev, out) = writeLoop es
           in if out = Blocked then (NewTicker # ev, Blocked)
              else (NewTicker # ev @ [TickerStop, WsClose], out)))"

text \<open>
  The number of calls of \<^verbatim>\<open>Close\<close> on the socket of a session whose read task runs
  on the results \<open>rs\<close> and whose write task runs on the inputs \<open>es\<close>.
\<close>

definition session_closes :: "Peer \<Rightarrow> read_result list \<Rightarrow> write_input list \<Rightarrow> nat" where
  "session_closes p rs es =
     count_list (fst (readPump p rs)) WsClose + count_list (fst (writePump p es)) WsClose"

section \<open>The hub\<close>

text \<open>
  Modelled from the spec: the routing of the hub (\<^verbatim>\<open>Hub.run\<close> and what it calls), which
  is not among the sources; only the construction of the hub, with its map
  \<^verbatim>\<open>peers\<close> from fingerprint to peer, and the error types are. Following the spec, a
  message for a target fingerprint is resolved in this order: \<open>TargetNotFound\<close> when
  the fingerprint has no entry in the registry; \<open>PeerIsForeign\<close> when the persisted
  owning user of the target differs from that of the source; \<open>UnauthorizedPeer\<close> when
  the source is not authenticated; otherwise the message is appended to the queue of
  the target, and dropped when that queue is full. The persisted owning user of a
  session is the \<open>user\<close> of its \<open>pd\<close>; a session without document has none. An error
  leaves the registry as it is.
\<close>

record Hub =
  peers :: "string \<rightharpoonup> Peer"

datatype route_error = TargetNotFound string | PeerIsForeign Peer | UnauthorizedPeer Peer

definition owner :: "Peer \<Rightarrow> string option" where
  "owner p = map_option user (pd p)"

definition Route :: "Hub \<Rightarrow> Peer \<Rightarrow> string \<Rightarrow> message \<Rightarrow> Hub \<times> route_error option" where
  "Route h source target m =
     (case peers h target of
        None \<Rightarrow> (h, Some (TargetNotFound target))
      | Some t \<Rightarrow>
          if owner t \<noteq> owner source then (h, Some (PeerIsForeign t))
          else if \<not> authenticated source then (h, Some (UnauthorizedPeer source))
          else if length (send t) < SendCap
          then (h\<lparr>peers := (peers h)(target \<mapsto> t\<lparr>send := send t @ [Request m]\<rparr>)\<rparr>, None)
          else (h, None))"

section \<open>The handshake\<close>

text \<open>
  \<^verbatim>\<open>newPeer\<close> talks to the store through two commands. What they answer is taken as
  given: \<open>EXISTS\<close> answers whether the key is there, or fails with a message;
  \<open>HGETALL\<close> answers the hash under the key as the list of its field names and
  values in turn, or fails with a message.
\<close>

record Redis =
  EXISTS :: "string \<Rightarrow> string + bool"
  HGETALL :: "string \<Rightarrow> string + string list"

text \<open>
  \<^verbatim>\<open>redis.ScanStruct\<close> of the store client scans such a list into a struct: a value is
  assigned to the field its name names, where only the exported fields of the
  struct have names for it; other names are passed over. A list of odd length is
  an error. The fields of \<^verbatim>\<open>PeerDoc\<close> are declared as \<^verbatim>\<open>user\<close>, \<^verbatim>\<open>fingerprint\<close>,
  \<^verbatim>\<open>name\<close> and \<^verbatim>\<open>kind\<close>, with no tags.
\<close>

definition PeerDoc_fields :: "string list" where
  "PeerDoc_fields = [''user'', ''fingerprint'', ''name'', ''kind'']"

definition PeerDoc_set :: "string \<Rightarrow> string \<Rightarrow> PeerDoc \<Rightarrow> PeerDoc" where
  "PeerDoc_set f v d =
     (if f = ''user'' then d\<lparr>user := v\<rparr>
      else if f = ''fingerprint'' then d\<lparr>fingerprint := v\<rparr>
      else if f = ''name'' then d\<lparr>name := v\<rparr>
      else if f = ''kind'' then d\<lparr>kind := v\<rparr>
      else d)"

fun scan_pairs :: "string list \<Rightarrow> PeerDoc \<Rightarrow> PeerDoc" where
  "scan_pairs (n # v # rest) d =
     scan_pairs rest (if n \<in> set (filter exported PeerDoc_fields) then PeerDoc_set n v d else d)"
| "scan_pairs rest d = d"

definition ScanStruct :: "string list \<Rightarrow> PeerDoc \<Rightarrow> string + PeerDoc" where
  "ScanStruct src d =
     (if odd (length src) then Inl ''redigo.ScanStruct: number of values not a multiple of 2''
      else Inr (scan_pairs src d))"

text \<open>
  Errors: the two error types of the handshake, and \<open>Errorf\<close> for an error that is
  only a message (made by \<^verbatim>\<open>fmt.Errorf\<close>, or returned by the store client).
\<close>

datatype error =
    Errorf string
  | PeerNotFound string
  | PeerChanged

fun Error :: "error \<Rightarrow> string" where
  "Error (Errorf msg) = msg"
| "Error (PeerNotFound fp) = ''Peer not found: '' @ fp"
| "Error PeerChanged = ''Peer exists with different properties''"

fun notFound :: "error \<Rightarrow> bool" where
  "notFound (PeerNotFound fp) = True"
| "notFound e = False"

fun changed :: "error \<Rightarrow> bool" where
  "changed PeerChanged = True"
| "changed e = False"

text \<open>
  The verb \<^verbatim>\<open>%q\<close> on a string: the string between double quotes. The escapes that
  \<^verbatim>\<open>%q\<close> writes for quotes, backslashes and unprintable characters are not modelled.
\<close>

definition quoted :: "string \<Rightarrow> string" where
  "quoted k = CHR 0x22 # k @ [CHR 0x22]"

text \<open>\<^verbatim>\<open>url.Values.Get\<close>: the value of the parameter, the empty string when it is absent.\<close>

definition Get :: "(string \<rightharpoonup> string) \<Rightarrow> string \<Rightarrow> string" where
  "Get q k = (case q k of None \<Rightarrow> [] | Some v \<Rightarrow> v)"

text \<open>
  \<^verbatim>\<open>newPeer\<close>. The document \<open>pd\<close> starts with all fields empty. The error of
  \<^verbatim>\<open>HGETALL\<close> is overwritten by the result of the scan, which then scans no values.
\<close>

definition newPeer :: "Redis \<Rightarrow> (string \<rightharpoonup> string) \<Rightarrow> Peer option \<times> error option" where
  "newPeer redis q =
     (let pd0 = \<lparr>user = [], fingerprint = [], name = [], kind = []\<rparr>;
          fp = Get q ''fingerprint'' in
      if fp = [] then (None, Some (Errorf ''Missing `fingerprint` query parameters''))
      else
        (let key = ''peer:'' @ fp in
         case EXISTS redis key of
           Inl err \<Rightarrow> (None, Some (Errorf err))
         | Inr exists \<Rightarrow>
             (let peer = \<lparr>ws = None, send = [], authenticated = False, pd = None\<rparr> in
              if \<not> exists then (Some peer, Some (PeerNotFound []))
              else
                (case ScanStruct (case HGETALL redis key of Inl err \<Rightarrow> [] | Inr values \<Rightarrow> values) pd0 of
                   Inl err \<Rightarrow>
                     (None, Some (Errorf (''Failed to scan peer '' @ quoted key @ '': '' @ err)))
                 | Inr doc \<Rightarrow>
                     (let peer = peer\<lparr>pd := Some doc\<rparr> in
                      if name doc \<noteq> Get q ''name'' \<or> user doc \<noteq> Get q ''user''
                           \<or> kind doc \<noteq> Get q ''kind''
                      then (Some peer, Some PeerChanged)
                      else (Some (peer\<lparr>authenticated := True\<rparr>), None))))))"

text \<open>
  \<^verbatim>\<open>sendStatus\<close> sends a \<^verbatim>\<open>StatusMessage\<close> on the channel of the peer, which holds 8
  values. The result is \<open>None\<close> when the channel is full: nobody receives before
  the write task runs, so the send would not return.
\<close>

definition sendStatus :: "Peer \<Rightarrow> int \<Rightarrow> error \<Rightarrow> Peer option" where
  "sendStatus p code err =
     (if length (send p) < SendCap
      then Some (p\<lparr>send := send p @ [Status \<lparr>status_code = code, description = Error err\<rparr>]\<rparr>)
      else None)"

text \<open>
  What the mailer has been asked to do is kept as a list of notices, one for each
  call that reaches it: the address was throttled, no link could be made, the mail
  with the link could not be delivered, or it was sent.
\<close>

datatype notice =
    Throttled string
  | NoToken string
  | MailFailed string string
  | MailSent string string

text \<open>
  The method \<^verbatim>\<open>sendAuthEmail\<close> of a peer. Its body is a comment saying that an email is
  to be sent and a \<^verbatim>\<open>return nil\<close>: the notices stay as they are, and no error is
  returned.
\<close>

definition Peer_sendAuthEmail :: "Peer \<Rightarrow> notice list \<Rightarrow> notice list \<times> error option" where
  "Peer_sendAuthEmail p mails = (mails, None)"

text \<open>
  \<^verbatim>\<open>Upgrade\<close> stores the connection the upgrader returns in the peer; when the upgrade
  fails the error is logged and the nil connection is stored all the same.
\<close>

definition Upgrade :: "Peer \<Rightarrow> nat option \<Rightarrow> Peer" where
  "Upgrade p conn = p\<lparr>ws := conn\<rparr>"

text \<open>
  A request to the websocket endpoint: its query parameters and what the upgrader
  will return for it. The handler answers with an HTTP error, or ends with both
  tasks of the peer started; it stays in \<^verbatim>\<open>sendStatus\<close> if that send blocks. The
  second component is the list of notices of the mailer.
\<close>

record ws_request =
  query :: "string \<rightharpoonup> string"
  upgrade :: "nat option"

datatype ws_response = HttpError nat string | Serving Peer | Stuck

definition StatusBadRequest :: nat where
  "StatusBadRequest = 400"

definition serveWs :: "Redis \<Rightarrow> notice list \<Rightarrow> ws_request \<Rightarrow> ws_response \<times> notice list" where
  "serveWs redis mails r =
     (case newPeer redis (query r) of
        (None, err) \<Rightarrow>
          (HttpError StatusBadRequest (case err of None \<Rightarrow> [] | Some e \<Rightarrow> Error e), mails)
      | (Some peer, None) \<Rightarrow> (Serving (Upgrade peer (upgrade r)), mails)
      | (Some peer, Some err) \<Rightarrow>
          (if notFound err \<or> changed err
           then (case sendStatus peer 401 err of
                   None \<Rightarrow> (Stuck, mails)
                 | Some peer' \<Rightarrow>
                     (let (mails', err') = Peer_sendAuthEmail peer' mails
                      in (Serving (Upgrade peer' (upgrade r)), mails')))
           else (HttpError StatusBadRequest (Error err), mails)))"

section \<open>The mailer\<close>

text \<open>
  \<^verbatim>\<open>sendAuthEmail\<close> and \<^verbatim>\<open>createTempURL\<close> of the main file. What they use from outside
  is a parameter: the throttle \<^verbatim>\<open>db.canSendEmail\<close>, \<^verbatim>\<open>db.CreateToken\<close> (a token, or the
  message of its error), the environment variable \<^verbatim>\<open>PB_HOME_URL\<close>, \<^verbatim>\<open>url.PathEscape\<close>,
  and whether the dialer delivers a mail to an address.
\<close>

record mailer =
  canSendEmail :: "string \<Rightarrow> bool"
  CreateToken :: "string \<Rightarrow> string + string"
  PB_HOME_URL :: string
  PathEscape :: "string \<Rightarrow> string"
  DialAndSend :: "string \<Rightarrow> string \<Rightarrow> bool"

definition DefaultHomeUrl :: string where
  "DefaultHomeUrl = ''https://pb.terminal7.dev''"

definition createTempURL :: "mailer \<Rightarrow> string \<Rightarrow> string \<Rightarrow> string + string" where
  "createTempURL env email prefix =
     (case CreateToken env email of
        Inl err \<Rightarrow> Inl (''Failed to create token: '' @ err)
      | Inr token \<Rightarrow>
          (let homeUrl = (if PB_HOME_URL env = [] then DefaultHomeUrl else PB_HOME_URL env)
           in Inr (homeUrl @ ''/'' @ prefix @ ''/'' @ PathEscape env token)))"

definition sendAuthEmail :: "mailer \<Rightarrow> string \<Rightarrow> notice list \<Rightarrow> notice list" where
  "sendAuthEmail env email mails =
     (if \<not> canSendEmail env email then mails @ [Throttled email]
      else
        (case createTempURL env email ''pb'' of
           Inl err \<Rightarrow> mails @ [NoToken email]
         | Inr clickL \<Rightarrow>
             if DialAndSend env email clickL then mails @ [MailSent email clickL]
             else mails @ [MailFailed email clickL]))"

section \<open>The identity store and the verification request\<close>

text \<open>
  Modelled from the spec: the persisted peer and the store operations that
  \<^verbatim>\<open>serveVerify\<close> calls (\<^verbatim>\<open>NewPeer\<close>, \<^verbatim>\<open>db.PeerExists\<close>, \<^verbatim>\<open>db.AddPeer\<close>, \<^verbatim>\<open>GetPeer\<close>,
  \<^verbatim>\<open>setName\<close>, \<^verbatim>\<open>GetUsersPeers\<close>), which are not among the sources. A persisted peer has
  the fields the main file reads: fingerprint, name, owning user, kind and the
  verified flag. The store keeps the peers in a list, and an operation can be made
  to fail with a message. Following the adapter contract of the spec: a new peer is
  unverified; adding a peer whose fingerprint is already stored is a conflict;
  setting the name changes the stored peer of that fingerprint; the peers of a user
  are all stored peers owned by that user.
\<close>

record PeerIdentity =
  FP :: string
  Name :: string
  User :: string
  Kind :: string
  Verified :: bool

datatype db_op = OpPeerExists | OpAddPeer | OpGetPeer | OpGetUsersPeers

record DBType =
  stored :: "PeerIdentity list"
  failing :: "db_op \<rightharpoonup> string"

definition NewPeer :: "string \<Rightarrow> string \<Rightarrow> string \<Rightarrow> string \<Rightarrow> PeerIdentity" where
  "NewPeer fp nm usr knd = \<lparr>FP = fp, Name = nm, User = usr, Kind = knd, Verified = False\<rparr>"

definition PeerExists :: "DBType \<Rightarrow> string \<Rightarrow> string + bool" where
  "PeerExists db fp =
     (case failing db OpPeerExists of
        Some err \<Rightarrow> Inl err
      | None \<Rightarrow> Inr (fp \<in> set (map FP (stored db))))"

definition AddPeer :: "DBType \<Rightarrow> PeerIdentity \<Rightarrow> string + DBType" where
  "AddPeer db peer =
     (case failing db OpAddPeer of
        Some err \<Rightarrow> Inl err
      | None \<Rightarrow>
          if FP peer \<in> set (map FP (stored db)) then Inl ''Conflict''
          else Inr (db\<lparr>stored := stored db @ [peer]\<rparr>))"

definition GetPeer :: "DBType \<Rightarrow> string \<Rightarrow> string + PeerIdentity" where
  "GetPeer db fp =
     (case failing db OpGetPeer of
        Some err \<Rightarrow> Inl err
      | None \<Rightarrow>
          (case find (\<lambda>p. FP p = fp) (stored db) of
             None \<Rightarrow> Inl ''NotFound''
           | Some peer \<Rightarrow> Inr peer))"

definition setName :: "DBType \<Rightarrow> PeerIdentity \<Rightarrow> string \<Rightarrow> DBType \<times> PeerIdentity" where
  "setName db peer nm =
     (db\<lparr>stored := map (\<lambda>p. if FP p = FP peer then p\<lparr>Name := nm\<rparr> else p) (stored db)\<rparr>,
      peer\<lparr>Name := nm\<rparr>)"

definition GetUsersPeers :: "DBType \<Rightarrow> string \<Rightarrow> string + PeerIdentity list" where
  "GetUsersPeers db usr =
     (case failing db OpGetUsersPeers of
        Some err \<Rightarrow> Inl err
      | None \<Rightarrow> Inr (filter (\<lambda>p. User p = usr) (stored db)))"

text \<open>
  A request to \<^verbatim>\<open>/verify\<close>: its method and its body, \<open>None\<close> when the body does not
  decode into a string map. The answer is an HTTP error with its status and message,
  or the JSON written: the verified flag, or the peers of the user. A request that is
  not a POST passes the checks and gets nothing written.
\<close>

record verify_request =
  Method :: string
  body :: "message option"

datatype verify_body = VerifiedIs bool | PeersAre "PeerIdentity list"

datatype verify_response = Failed nat string | Wrote verify_body | Nothing

text \<open>
  The JSON text of the map with the one key \<^verbatim>\<open>m\<close>, as written for a failure of
  \<^verbatim>\<open>GetPeer\<close> (the escapes of the encoder are not modelled).
\<close>

definition json_m :: "string \<Rightarrow> string" where
  "json_m msg = [CHR 0x7B] @ quoted ''m'' @ '':'' @ quoted msg @ [CHR 0x7D]"

definition StatusInternalServerError :: nat where
  "StatusInternalServerError = 500"

definition StatusConflict :: nat where
  "StatusConflict = 409"

text \<open>The end of the handler: what is written for the peer at hand.\<close>

definition verify_write ::
  "DBType \<Rightarrow> notice list \<Rightarrow> PeerIdentity \<Rightarrow> verify_response \<times> DBType \<times> notice list" where
  "verify_write db mails peer =
     (if Verified peer
      then (case GetUsersPeers db (User peer) of
              Inl err \<Rightarrow> (Failed StatusInternalServerError (''Failed to get user peers: '' @ err), db, mails)
            | Inr ps \<Rightarrow> (Wrote (PeersAre ps), db, mails))
      else (Wrote (VerifiedIs (Verified peer)), db, mails))"

text \<open>
  The end of the branch of a known fingerprint, reached unless the conflict returned:
  the name is set when it differs from the claimed one, and the mail is sent again
  when the peer is not verified.
\<close>

definition verify_known ::
  "mailer \<Rightarrow> DBType \<Rightarrow> notice list \<Rightarrow> message \<Rightarrow> string \<Rightarrow> PeerIdentity
     \<Rightarrow> verify_response \<times> DBType \<times> notice list" where
  "verify_known env db mails req email peer =
     (let (db1, peer1) = (if Name peer \<noteq> Get req ''name'' then setName db peer (Get req ''name'')
                          else (db, peer));
          mails1 = (if \<not> Verified peer1 then sendAuthEmail env email mails else mails)
      in verify_write db1 mails1 peer1)"

definition serveVerify ::
  "mailer \<Rightarrow> DBType \<Rightarrow> notice list \<Rightarrow> verify_request \<Rightarrow> verify_response \<times> DBType \<times> notice list" where
  "serveVerify env db mails r =
     (let req = (case body r of None \<Rightarrow> Map.empty | Some m \<Rightarrow> m);
          fp = Get req ''fp'';
          email = Get req ''email''
      in
      if body r = None then (Failed StatusBadRequest ''Bad JSON'', db, mails)
      else if fp = [] then (Failed StatusBadRequest ''Missing fingerprint'', db, mails)
      else if email = [] then (Failed StatusBadRequest ''Missing email'', db, mails)
      else if Method r \<noteq> ''POST'' then (Nothing, db, mails)
      else
        (case PeerExists db fp of
           Inl err \<Rightarrow> (Failed StatusInternalServerError ''DB read failure'', db, mails)
         | Inr pexists \<Rightarrow>
             if \<not> pexists then
               (let peer = NewPeer fp (Get req ''name'') email (Get req ''kind'') in
                case AddPeer db peer of
                  Inl err \<Rightarrow> (Failed StatusInternalServerError (''Failed to add peer: '' @ err), db, mails)
                | Inr db1 \<Rightarrow> verify_write db1 (sendAuthEmail env email mails) peer)
             else
               (case GetPeer db fp of
                  Inl err \<Rightarrow> (Failed StatusInternalServerError (json_m (''Failed to get peer: '' @ err)), db, mails)
                | Inr peer \<Rightarrow>
                    if User peer = [] then
                      (let peer1 = NewPeer fp (Get req ''name'') email (Get req ''kind'') in
                       case AddPeer db peer1 of
                         Inl err \<Rightarrow>
                           (Failed StatusInternalServerError (''Failed to add peer: '' @ err), db, mails)
                       | Inr db1 \<Rightarrow> verify_known env db1 mails req email peer1)
                    else if User peer \<noteq> email then
                      (Failed StatusConflict
                         (''Fingerprint is associated to another email: '' @ User peer), db, mails)
                    else verify_known env db mails req email peer)))"

section \<open>Properties of the read task\<close>

lemma readLoop_no_defer_events:
  "HubUnregister \<notin> set (fst (readLoop d msg rs)) \<and> WsClose \<notin> set (fst (readLoop d msg rs))"
proof (induction rs arbitrary: msg)
  case Nil
  show ?case by simp
next
  case (Cons r rs)
  show ?case
  proof (cases r)
    case (Frame f)
    with Cons show ?thesis
      by (auto simp: Let_def split_beta split: option.splits)
  next
    case Null
    with Cons show ?thesis
      by (auto simp: Let_def split_beta split: option.splits)
  next
    case (ReadErr e)
    then show ?thesis by simp
  qed
qed

lemma readLoop_error_not_blocked:
  "ReadErr e \<in> set rs \<Longrightarrow> snd (readLoop d msg rs) \<noteq> Blocked"
proof (induction rs arbitrary: msg)
  case Nil
  then show ?case by simp
next
  case (Cons r rs)
  show ?case
  proof (cases r)
    case (Frame f)
    with Cons show ?thesis
      by (auto simp: Let_def split_beta split: option.splits)
  next
    case Null
    with Cons show ?thesis
      by (auto simp: Let_def split_beta split: option.splits)
  next
    case (ReadErr e')
    then show ?thesis by simp
  qed
qed

lemma readLoop_returns:
  "ReadErr e \<in> set rs \<Longrightarrow> d \<noteq> None \<Longrightarrow> Null \<notin> set rs \<Longrightarrow> snd (readLoop d msg rs) = Returned"
proof (induction rs arbitrary: msg)
  case Nil
  then show ?case by simp
next
  case (Cons r rs)
  show ?case
  proof (cases r)
    case (Frame f)
    with Cons show ?thesis
      by (cases msg) (auto simp: Let_def split_beta split: option.splits)
  next
    case Null
    with Cons show ?thesis by simp
  next
    case (ReadErr e')
    then show ?thesis by simp
  qed
qed

text \<open>
  C4. When the socket of a session delivers a read error of any kind (a payload that
  does not decode, an oversized frame, the read deadline passing, the remote side
  closing), the read task does not stay blocked: its events end with one send on
  \<^verbatim>\<open>unregister\<close> followed by the close of the socket, and neither occurs before. So
  exactly one unregistration is emitted, before the socket is closed. With a
  persisted document and no \<^verbatim>\<open>null\<close> frame the task ends by returning.
\<close>

theorem readPump_error_unregisters_once:
  assumes "ws p = Some c" and "ReadErr e \<in> set rs"
  shows "(\<exists>pre. fst (readPump p rs) = pre @ [HubUnregister, WsClose]
            \<and> HubUnregister \<notin> set pre \<and> WsClose \<notin> set pre)
       \<and> count_list (fst (readPump p rs)) HubUnregister = 1
       \<and> count_list (fst (readPump p rs)) WsClose = 1
       \<and> snd (readPump p rs) \<noteq> Blocked
       \<and> (pd p \<noteq> None \<and> Null \<notin> set rs \<longrightarrow> snd (readPump p rs) = Returned)"
proof -
  obtain ev out where lp: "readLoop (pd p) None rs = (ev, out)"
    by (cases "readLoop (pd p) None rs")
  from assms(2) have nb: "out \<noteq> Blocked"
    using readLoop_error_not_blocked [of e rs "pd p" None] lp by simp
  have clean: "HubUnregister \<notin> set ev" "WsClose \<notin> set ev"
    using readLoop_no_defer_events [of "pd p" None rs] lp by simp_all
  let ?pre = "[SetReadLimit maxMessageSize, SetReadDeadline, SetPongHandler] @ ev"
  have run: "readPump p rs = (?pre @ [HubUnregister, WsClose], out)"
    using assms(1) lp nb by (simp add: readPump_def)
  have c0: "count_list ev HubUnregister = 0" "count_list ev WsClose = 0"
    using clean by (simp_all add: count_list_0_iff)
  have ret: "pd p \<noteq> None \<and> Null \<notin> set rs \<longrightarrow> out = Returned"
    using readLoop_returns [of e rs "pd p" None] assms(2) lp by auto
  have "fst (readPump p rs) = ?pre @ [HubUnregister, WsClose]
          \<and> HubUnregister \<notin> set ?pre \<and> WsClose \<notin> set ?pre"
    using run clean by simp
  then have ex: "\<exists>pre. fst (readPump p rs) = pre @ [HubUnregister, WsClose]
            \<and> HubUnregister \<notin> set pre \<and> WsClose \<notin> set pre"
    by blast
  from run c0 nb ret ex show ?thesis by simp
qed

theorem readPump_error_unregisters_once_witness:
  "fst (readPump \<lparr>ws = Some 0, send = [], authenticated = True,
                  pd = Some \<lparr>user = ''alice'', fingerprint = ''A'', name = ''laptop'', kind = ''webexec''\<rparr>\<rparr>
          [Frame [''target'' \<mapsto> ''B''], ReadErr DeadlineExpired])
     = [SetReadLimit 512, SetReadDeadline, SetPongHandler,
        HubRequest [''target'' \<mapsto> ''B'', ''source_fp'' \<mapsto> ''A'', ''source_name'' \<mapsto> ''laptop''],
        HubUnregister, WsClose]
   \<and> count_list (fst (readPump \<lparr>ws = Some 0, send = [], authenticated = True,
                  pd = Some \<lparr>user = ''alice'', fingerprint = ''A'', name = ''laptop'', kind = ''webexec''\<rparr>\<rparr>
          [Frame [''target'' \<mapsto> ''B''], ReadErr DeadlineExpired])) HubUnregister = 1
   \<and> snd (readPump \<lparr>ws = Some 0, send = [], authenticated = True,
                  pd = Some \<lparr>user = ''alice'', fingerprint = ''A'', name = ''laptop'', kind = ''webexec''\<rparr>\<rparr>
          [Frame [''target'' \<mapsto> ''B''], ReadErr DeadlineExpired]) = Returned"
  using readPump_error_unregisters_once
    [of "\<lparr>ws = Some 0, send = [], authenticated = True,
          pd = Some \<lparr>user = ''alice'', fingerprint = ''A'', name = ''laptop'', kind = ''webexec''\<rparr>\<rparr>"
        0 DeadlineExpired "[Frame [''target'' \<mapsto> ''B''], ReadErr DeadlineExpired]"]
  by (simp add: readPump_def maxMessageSize_def)

section \<open>The session without persisted document\<close>

lemma readLoop_pd_no_nil_panic:
  "snd (readLoop (Some doc) msg rs) \<noteq> Panicked NilPointerDereference"
proof (induction rs arbitrary: msg)
  case Nil
  show ?case by simp
next
  case (Cons r rs)
  show ?case
  proof (cases r)
    case (Frame f)
    with Cons show ?thesis
      by (simp add: Let_def split_beta split: option.splits)
  next
    case Null
    with Cons show ?thesis
      by (simp add: Let_def split_beta split: option.splits)
  next
    case (ReadErr e)
    then show ?thesis by simp
  qed
qed

lemma readLoop_nil_pd_panics:
  "\<forall>e. r \<noteq> ReadErr e \<Longrightarrow> readLoop None msg (r # rs) = ([], Panicked NilPointerDereference)"
  by (cases r) simp_all

lemma serveWs_not_found:
  assumes "Get (query r) ''fingerprint'' \<noteq> []"
    and "EXISTS redis (''peer:'' @ Get (query r) ''fingerprint'') = Inr False"
  shows "serveWs redis mails r =
     (Serving \<lparr>ws = upgrade r,
               send = [Status \<lparr>status_code = 401, description = ''Peer not found: ''\<rparr>],
               authenticated = False, pd = None\<rparr>, mails)"
proof -
  from assms have np: "newPeer redis (query r) =
      (Some \<lparr>ws = None, send = [], authenticated = False, pd = None\<rparr>, Some (PeerNotFound []))"
    by (simp add: newPeer_def Let_def)
  show ?thesis
    by (simp add: serveWs_def np sendStatus_def SendCap_def Peer_sendAuthEmail_def Upgrade_def)
qed

text \<open>
  C8. A connection with a fingerprint the store does not know yields a peer whose
  persisted document \<open>pd\<close> is nil, and the handler starts the tasks on it. The read
  task reads \<open>pd\<close> for every inbound frame without a check: on such a session the
  first frame ends the task in a nil pointer panic. A session with a document and a
  socket never panics in this way, so the read task is safe only when \<open>pd\<close> is not
  nil.
\<close>

theorem readPump_nil_pd_panics:
  assumes "Get (query r) ''fingerprint'' \<noteq> []"
    and "EXISTS redis (''peer:'' @ Get (query r) ''fingerprint'') = Inr False"
    and "upgrade r = Some c"
  shows "(\<exists>p. fst (newPeer redis (query r)) = Some p \<and> pd p = None)
       \<and> (\<exists>p'. fst (serveWs redis mails r) = Serving p' \<and> pd p' = None \<and> ws p' = Some c
                \<and> (\<forall>x rs. (\<forall>e. x \<noteq> ReadErr e) \<longrightarrow>
                      snd (readPump p' (x # rs)) = Panicked NilPointerDereference))
       \<and> (\<forall>s rs. pd s \<noteq> None \<and> ws s \<noteq> None \<longrightarrow>
              snd (readPump s rs) \<noteq> Panicked NilPointerDereference)"
proof -
  from assms(1,2) have np: "newPeer redis (query r) =
      (Some \<lparr>ws = None, send = [], authenticated = False, pd = None\<rparr>, Some (PeerNotFound []))"
    by (simp add: newPeer_def Let_def)
  let ?p' = "\<lparr>ws = upgrade r,
               send = [Status \<lparr>status_code = 401, description = ''Peer not found: ''\<rparr>],
               authenticated = False, pd = None\<rparr>"
  have sv: "fst (serveWs redis mails r) = Serving ?p'"
    using serveWs_not_found [OF assms(1,2)] by simp
  have pn: "snd (readPump ?p' (x # rs)) = Panicked NilPointerDereference"
    if "\<forall>e. x \<noteq> ReadErr e" for x rs
    using readLoop_nil_pd_panics [OF that, of None rs] assms(3) by (simp add: readPump_def)
  have safe: "snd (readPump s rs) \<noteq> Panicked NilPointerDereference"
    if "pd s \<noteq> None \<and> ws s \<noteq> None" for s rs
  proof -
    from that obtain doc c' where d: "pd s = Some doc" and w: "ws s = Some c'" by auto
    obtain ev out where lp: "readLoop (Some doc) None rs = (ev, out)"
      by (cases "readLoop (Some doc) None rs")
    with readLoop_pd_no_nil_panic [of doc None rs] have "out \<noteq> Panicked NilPointerDereference"
      by simp
    with d w lp show ?thesis
      by (simp add: readPump_def Let_def)
  qed
  from np have a: "\<exists>p. fst (newPeer redis (query r)) = Some p \<and> pd p = None"
    by simp
  from sv pn assms(3)
  have b: "\<exists>p'. fst (serveWs redis mails r) = Serving p' \<and> pd p' = None \<and> ws p' = Some c
                \<and> (\<forall>x rs. (\<forall>e. x \<noteq> ReadErr e) \<longrightarrow>
                      snd (readPump p' (x # rs)) = Panicked NilPointerDereference)"
    by simp
  from a b safe show ?thesis by blast
qed

theorem readPump_nil_pd_panics_witness:
  "\<exists>p'. fst (serveWs \<lparr>EXISTS = \<lambda>k. Inr False, HGETALL = \<lambda>k. Inl ''no reply''\<rparr> []
                \<lparr>query = [''fingerprint'' \<mapsto> ''X''], upgrade = Some 3\<rparr>) = Serving p'
        \<and> pd p' = None \<and> ws p' = Some 3
        \<and> snd (readPump p' [Frame [''target'' \<mapsto> ''B'']]) = Panicked NilPointerDereference"
proof -
  let ?redis = "\<lparr>EXISTS = \<lambda>k. Inr False, HGETALL = \<lambda>k. Inl ''no reply''\<rparr>"
  let ?r = "\<lparr>query = [''fingerprint'' \<mapsto> ''X''], upgrade = Some 3\<rparr>"
  have h1: "Get (query ?r) ''fingerprint'' \<noteq> []" by (simp add: Get_def)
  have h2: "EXISTS ?redis (''peer:'' @ Get (query ?r) ''fingerprint'') = Inr False" by simp
  have h3: "upgrade ?r = Some 3" by simp
  have fr: "\<forall>e. Frame [''target'' \<mapsto> ''B''] \<noteq> ReadErr e" by simp
  from readPump_nil_pd_panics [OF h1 h2 h3, of "[]"] fr show ?thesis by blast
qed

section \<open>Properties of the handshake\<close>

text \<open>
  C2. A connection with a fingerprint the store does not know: the peer is made with
  \<open>authenticated\<close> false and \<open>PeerNotFound\<close> is signalled, a status with code 401 is put
  on its queue, and the socket is attached. The notices of the mailer are the same
  after the handler as before: the method that is called to send the mail does
  nothing.
\<close>

theorem serveWs_unknown_sends_no_mail:
  "newPeer \<lparr>EXISTS = \<lambda>k. Inr False, HGETALL = \<lambda>k. Inl ''no reply''\<rparr> [''fingerprint'' \<mapsto> ''X'', ''user'' \<mapsto> ''alice'']
     = (Some \<lparr>ws = None, send = [], authenticated = False, pd = None\<rparr>, Some (PeerNotFound []))
   \<and> serveWs \<lparr>EXISTS = \<lambda>k. Inr False, HGETALL = \<lambda>k. Inl ''no reply''\<rparr> []
        \<lparr>query = [''fingerprint'' \<mapsto> ''X'', ''user'' \<mapsto> ''alice''], upgrade = Some 3\<rparr>
     = (Serving \<lparr>ws = Some 3,
                 send = [Status \<lparr>status_code = 401, description = ''Peer not found: ''\<rparr>],
                 authenticated = False, pd = None\<rparr>, [])"
  by (simp add: serveWs_def newPeer_def Get_def Let_def sendStatus_def SendCap_def
        Peer_sendAuthEmail_def Upgrade_def)

theorem serveWs_unknown_sends_no_mail_witness:
  "snd (serveWs \<lparr>EXISTS = \<lambda>k. Inr False, HGETALL = \<lambda>k. Inl ''no reply''\<rparr> []
          \<lparr>query = [''fingerprint'' \<mapsto> ''X'', ''user'' \<mapsto> ''alice''], upgrade = Some 3\<rparr>) = []"
  by (simp add: conjunct2 [OF serveWs_unknown_sends_no_mail])

section \<open>Properties of the write task\<close>

lemma not_exported_status_code: "\<not> exported ''status_code''"
  by (simp add: exported_def)

lemma not_exported_description: "\<not> exported ''description''"
  by (simp add: exported_def)

text \<open>
  C9. A status message is encoded as the empty object: neither of its two fields is
  exported, so the encoder leaves both out. The status with code 401 that the
  handshake puts on the queue of an unauthenticated peer reaches the socket as the
  empty object, with no status code and no description.
\<close>

theorem status_frame_is_empty_object:
  "Marshal (Status m) = JObject []
   \<and> fst (writePump \<lparr>ws = Some 3,
                      send = [Status \<lparr>status_code = 401, description = ''Peer not found: ''\<rparr>],
                      authenticated = False, pd = None\<rparr>
            [QueueMsg (Status \<lparr>status_code = 401, description = ''Peer not found: ''\<rparr>) True])
     = [NewTicker, SetWriteDeadline, WriteJSON (JObject []) True]"
  by (simp add: StatusMessage_fields_def not_exported_status_code not_exported_description
        writePump_def)

theorem status_frame_is_empty_object_witness:
  "Marshal (Status \<lparr>status_code = 401, description = ''Peer not found: ''\<rparr>) = JObject []"
  by (rule conjunct1 [OF status_frame_is_empty_object])

section \<open>Properties of the hub\<close>

text \<open>
  C1. A request whose target fingerprint resolves to a registered session whose
  persisted owning user differs from that of the source session fails with
  \<open>PeerIsForeign\<close>, and the hub is left as it is: nothing is appended to the queue of
  the target. Nothing is asked of the authentication of either peer.
\<close>

theorem Route_foreign:
  assumes "peers h target = Some t"
    and "pd t = Some td" and "pd source = Some sd" and "user td \<noteq> user sd"
  shows "Route h source target m = (h, Some (PeerIsForeign t))"
  using assms by (simp add: Route_def owner_def)

theorem Route_foreign_witness:
  "Route \<lparr>peers = [''T'' \<mapsto> \<lparr>ws = Some 1, send = [], authenticated = True,
                              pd = Some \<lparr>user = ''bob'', fingerprint = ''T'', name = ''server'', kind = ''webexec''\<rparr>\<rparr>]\<rparr>
         \<lparr>ws = Some 2, send = [], authenticated = True,
           pd = Some \<lparr>user = ''alice'', fingerprint = ''S'', name = ''laptop'', kind = ''terminal7''\<rparr>\<rparr>
         ''T'' [''target'' \<mapsto> ''T'', ''msg'' \<mapsto> ''hi'']
   = (\<lparr>peers = [''T'' \<mapsto> \<lparr>ws = Some 1, send = [], authenticated = True,
                              pd = Some \<lparr>user = ''bob'', fingerprint = ''T'', name = ''server'', kind = ''webexec''\<rparr>\<rparr>]\<rparr>,
      Some (PeerIsForeign \<lparr>ws = Some 1, send = [], authenticated = True,
                              pd = Some \<lparr>user = ''bob'', fingerprint = ''T'', name = ''server'', kind = ''webexec''\<rparr>\<rparr>))"
proof -
  let ?t = "\<lparr>ws = Some 1, send = [], authenticated = True,
             pd = Some \<lparr>user = ''bob'', fingerprint = ''T'', name = ''server'', kind = ''webexec''\<rparr>\<rparr>"
  let ?s = "\<lparr>ws = Some 2, send = [], authenticated = True,
           pd = Some \<lparr>user = ''alice'', fingerprint = ''S'', name = ''laptop'', kind = ''terminal7''\<rparr>\<rparr>"
  let ?h = "\<lparr>peers = [''T'' \<mapsto> ?t]\<rparr>"
  have h1: "peers ?h ''T'' = Some ?t" by simp
  have h2: "pd ?t = Some \<lparr>user = ''bob'', fingerprint = ''T'', name = ''server'', kind = ''webexec''\<rparr>"
    by simp
  have h3: "pd ?s = Some \<lparr>user = ''alice'', fingerprint = ''S'', name = ''laptop'', kind = ''terminal7''\<rparr>"
    by simp
  have h4: "user \<lparr>user = ''bob'', fingerprint = ''T'', name = ''server'', kind = ''webexec''\<rparr>
        \<noteq> user \<lparr>user = ''alice'', fingerprint = ''S'', name = ''laptop'', kind = ''terminal7''\<rparr>"
    by simp
  from Route_foreign [OF h1 h2 h3 h4] show ?thesis .
qed

section \<open>How the write task ends\<close>

lemma writeLoop_append:
  "snd (writeLoop pre) = Blocked \<Longrightarrow>
   writeLoop (pre @ es) = (fst (writeLoop pre) @ fst (writeLoop es), snd (writeLoop es))"
proof (induction pre rule: writeLoop.induct)
  case 1
  show ?case by simp
next
  case (2 es')
  then show ?case by simp
next
  case (3 m ok es')
  then show ?case by (simp add: split_beta)
next
  case (4 ok es')
  then show ?case by (simp add: split_beta split: if_splits)
qed

lemma writeLoop_no_close: "WsClose \<notin> set (fst (writeLoop es))"
  by (induction es rule: writeLoop.induct) (simp_all add: split_beta)

lemma writePump_append:
  assumes "ws p = Some c" and "snd (writePump p pre) = Blocked"
  shows "writePump p (pre @ es) =
     (if snd (writeLoop es) = Blocked then (fst (writePump p pre) @ fst (writeLoop es), Blocked)
      else (fst (writePump p pre) @ fst (writeLoop es) @ [TickerStop, WsClose], snd (writeLoop es)))"
proof -
  from assms have b: "snd (writeLoop pre) = Blocked"
    by (simp add: writePump_def split_beta split: if_splits)
  from assms(1) b show ?thesis
    by (simp add: writePump_def writeLoop_append [OF b] split_beta)
qed

text \<open>
  C5, as the code has it. While the write task of a session is running: a ping that
  cannot be written ends the task, and so does the closing of the queue by the hub;
  both run the deferred stop of the ticker and close of the socket. A message of
  the queue that cannot be written does not end the task: a warning is logged and
  the task waits for the next message or tick.
\<close>

theorem writePump_send_failures:
  assumes "ws p = Some c" and "snd (writePump p pre) = Blocked"
  shows "writePump p (pre @ Tick False # rest) =
           (fst (writePump p pre) @ [SetWriteDeadline, WritePingMessage False, TickerStop, WsClose],
            Returned)
       \<and> writePump p (pre @ QueueClosed # rest) =
           (fst (writePump p pre) @ [SetWriteDeadline, WriteCloseMessage, TickerStop, WsClose],
            Returned)
       \<and> writePump p (pre @ [QueueMsg m False]) =
           (fst (writePump p pre) @ [SetWriteDeadline, WriteJSON (Marshal m) False, LogWarn],
            Blocked)"
  by (simp add: writePump_append [OF assms])

theorem writePump_send_failures_witness:
  "writePump \<lparr>ws = Some 1, send = [], authenticated = True, pd = None\<rparr>
     [Tick True, Tick False, Tick True]
   = ([NewTicker, SetWriteDeadline, WritePingMessage True,
       SetWriteDeadline, WritePingMessage False, TickerStop, WsClose], Returned)"
proof -
  let ?p = "\<lparr>ws = Some 1, send = [], authenticated = True, pd = None\<rparr>"
  have h1: "ws ?p = Some 1" by simp
  have h2: "snd (writePump ?p [Tick True]) = Blocked" by (simp add: writePump_def)
  have pre: "fst (writePump ?p [Tick True]) = [NewTicker, SetWriteDeadline, WritePingMessage True]"
    by (simp add: writePump_def)
  from writePump_send_failures [OF h1 h2, of "[Tick True]"] pre show ?thesis by simp
qed

text \<open>
  C5, as the claim states it, fails: the write of a message of the queue fails and
  the task is not ended; it goes on to write the next message.
\<close>

theorem writePump_message_failure_counterexample:
  "writePump \<lparr>ws = Some 1, send = [], authenticated = True, pd = None\<rparr>
     [QueueMsg (Request [''msg'' \<mapsto> ''hi'']) False, QueueMsg (Request [''msg'' \<mapsto> ''ho'']) True]
   = ([NewTicker, SetWriteDeadline, WriteJSON (JMap [''msg'' \<mapsto> ''hi'']) False, LogWarn,
       SetWriteDeadline, WriteJSON (JMap [''msg'' \<mapsto> ''ho'']) True], Blocked)"
  by (simp add: writePump_def)

section \<open>Who closes the socket\<close>

lemma readPump_closes:
  assumes "ws p = Some c"
  shows "(snd (readPump p rs) \<noteq> Blocked \<longrightarrow>
            count_list (fst (readPump p rs)) WsClose = 1 \<and> last (fst (readPump p rs)) = WsClose)
       \<and> (snd (readPump p rs) = Blocked \<longrightarrow> count_list (fst (readPump p rs)) WsClose = 0)"
proof -
  obtain ev out where lp: "readLoop (pd p) None rs = (ev, out)"
    by (cases "readLoop (pd p) None rs")
  have "WsClose \<notin> set ev"
    using readLoop_no_defer_events [of "pd p" None rs] lp by simp
  then have c0: "count_list ev WsClose = 0" by (simp add: count_list_0_iff)
  from assms lp c0 show ?thesis
    by (simp add: readPump_def Let_def)
qed

lemma writePump_closes:
  assumes "ws p = Some c"
  shows "(snd (writePump p es) \<noteq> Blocked \<longrightarrow>
            count_list (fst (writePump p es)) WsClose = 1 \<and> last (fst (writePump p es)) = WsClose)
       \<and> (snd (writePump p es) = Blocked \<longrightarrow> count_list (fst (writePump p es)) WsClose = 0)"
proof -
  obtain ev out where lp: "writeLoop es = (ev, out)"
    by (cases "writeLoop es")
  have "WsClose \<notin> set ev"
    using writeLoop_no_close [of es] lp by simp
  then have c0: "count_list ev WsClose = 0" by (simp add: count_list_0_iff)
  from assms lp c0 show ?thesis
    by (simp add: writePump_def)
qed

text \<open>
  C7, as the code has it. Each task of a session with a socket closes the socket
  itself, as the last thing it does when it ends, and not before; neither waits for
  the other. So the socket is first closed when the first of the two tasks ends, and
  once both have ended \<^verbatim>\<open>Close\<close> has been called twice.
\<close>

theorem each_task_closes_socket:
  assumes "ws p = Some c"
  shows "(snd (readPump p rs) \<noteq> Blocked \<longrightarrow>
            count_list (fst (readPump p rs)) WsClose = 1 \<and> last (fst (readPump p rs)) = WsClose)
       \<and> (snd (readPump p rs) = Blocked \<longrightarrow> count_list (fst (readPump p rs)) WsClose = 0)
       \<and> (snd (writePump p es) \<noteq> Blocked \<longrightarrow>
            count_list (fst (writePump p es)) WsClose = 1 \<and> last (fst (writePump p es)) = WsClose)
       \<and> (snd (writePump p es) = Blocked \<longrightarrow> count_list (fst (writePump p es)) WsClose = 0)
       \<and> (snd (readPump p rs) \<noteq> Blocked \<and> snd (writePump p es) \<noteq> Blocked \<longrightarrow>
            session_closes p rs es = 2)"
  using readPump_closes [OF assms, of rs] writePump_closes [OF assms, of es]
  by (simp add: session_closes_def)

theorem each_task_closes_socket_witness:
  "session_closes \<lparr>ws = Some 1, send = [], authenticated = True, pd = None\<rparr>
     [ReadErr DeadlineExpired] [Tick False] = 2"
proof -
  let ?p = "\<lparr>ws = Some 1, send = [], authenticated = True, pd = None\<rparr>"
  have h: "ws ?p = Some 1" by simp
  have r: "snd (readPump ?p [ReadErr DeadlineExpired]) \<noteq> Blocked" by (simp add: readPump_def)
  have w: "snd (writePump ?p [Tick False]) \<noteq> Blocked" by (simp add: writePump_def)
  from each_task_closes_socket [OF h, of "[ReadErr DeadlineExpired]" "[Tick False]"] r w
  show ?thesis by blast
qed

text \<open>
  C7, as the claim states it, fails. The remote side closes: the read task ends and
  closes the socket while the write task, with nothing to take, has not ended. When
  the hub then closes the queue the write task ends and closes the socket again: two
  calls of \<^verbatim>\<open>Close\<close> in the session.
\<close>

theorem socket_closed_twice_counterexample:
  "readPump \<lparr>ws = Some 1, send = [], authenticated = True, pd = None\<rparr> [ReadErr RemoteClose]
     = ([SetReadLimit 512, SetReadDeadline, SetPongHandler, HubUnregister, WsClose], Returned)
   \<and> writePump \<lparr>ws = Some 1, send = [], authenticated = True, pd = None\<rparr> [] = ([NewTicker], Blocked)
   \<and> writePump \<lparr>ws = Some 1, send = [], authenticated = True, pd = None\<rparr> [QueueClosed]
     = ([NewTicker, SetWriteDeadline, WriteCloseMessage, TickerStop, WsClose], Returned)
   \<and> session_closes \<lparr>ws = Some 1, send = [], authenticated = True, pd = None\<rparr>
        [ReadErr RemoteClose] [QueueClosed] = 2"
  by (simp add: readPump_def writePump_def session_closes_def maxMessageSize_def)

section \<open>Properties of the verification request\<close>

lemma find_none_iff_not_stored:
  "(find (\<lambda>p. FP p = fp) xs = None) = (fp \<notin> set (map FP xs))"
  by (induction xs) auto

lemma find_after_setName:
  "find (\<lambda>p. FP p = fp) (map (\<lambda>p. if FP p = fp then p\<lparr>Name := nm\<rparr> else p) xs)
     = map_option (\<lambda>p. p\<lparr>Name := nm\<rparr>) (find (\<lambda>p. FP p = fp) xs)"
  by (induction xs) auto

lemma find_gives_FP: "find (\<lambda>p. FP p = fp) xs = Some peer \<Longrightarrow> FP peer = fp"
  by (induction xs) (auto split: if_splits)

lemma sendAuthEmail_one_notice: "\<exists>n. sendAuthEmail env e mails = mails @ [n]"
  by (simp add: sendAuthEmail_def split: sum.splits)

lemma serveVerify_post:
  assumes "Method r = ''POST''" and "body r = Some req"
    and "Get req ''fp'' \<noteq> []" and "Get req ''email'' \<noteq> []"
  shows "serveVerify env db mails r =
     (case PeerExists db (Get req ''fp'') of
           Inl err \<Rightarrow> (Failed StatusInternalServerError ''DB read failure'', db, mails)
         | Inr pexists \<Rightarrow>
             if \<not> pexists then
               (let peer = NewPeer (Get req ''fp'') (Get req ''name'') (Get req ''email'') (Get req ''kind'') in
                case AddPeer db peer of
                  Inl err \<Rightarrow> (Failed StatusInternalServerError (''Failed to add peer: '' @ err), db, mails)
                | Inr db1 \<Rightarrow> verify_write db1 (sendAuthEmail env (Get req ''email'') mails) peer)
             else
               (case GetPeer db (Get req ''fp'') of
                  Inl err \<Rightarrow> (Failed StatusInternalServerError (json_m (''Failed to get peer: '' @ err)), db, mails)
                | Inr peer \<Rightarrow>
                    if User peer = [] then
                      (let peer1 = NewPeer (Get req ''fp'') (Get req ''name'') (Get req ''email'') (Get req ''kind'') in
                       case AddPeer db peer1 of
                         Inl err \<Rightarrow>
                           (Failed StatusInternalServerError (''Failed to add peer: '' @ err), db, mails)
                       | Inr db1 \<Rightarrow> verify_known env db1 mails req (Get req ''email'') peer1)
                    else if User peer \<noteq> Get req ''email'' then
                      (Failed StatusConflict
                         (''Fingerprint is associated to another email: '' @ User peer), db, mails)
                    else verify_known env db mails req (Get req ''email'') peer))"
  using assms by (simp add: serveVerify_def Let_def)

lemma serveVerify_unknown:
  assumes "Method r = ''POST''" and "body r = Some req"
    and "Get req ''fp'' \<noteq> []" and "Get req ''email'' \<noteq> []"
    and "failing db = Map.empty"
    and "find (\<lambda>p. FP p = Get req ''fp'') (stored db) = None"
  shows "serveVerify env db mails r =
           (Wrote (VerifiedIs False),
            db\<lparr>stored := stored db @ [\<lparr>FP = Get req ''fp'', Name = Get req ''name'',
                                       User = Get req ''email'', Kind = Get req ''kind'',
                                       Verified = False\<rparr>]\<rparr>,
            sendAuthEmail env (Get req ''email'') mails)"
proof -
  from assms(6) have nin: "Get req ''fp'' \<notin> set (map FP (stored db))"
    by (simp add: find_none_iff_not_stored)
  show ?thesis
    unfolding serveVerify_post [OF assms(1-4)]
    using nin assms(5)
    by (simp add: PeerExists_def AddPeer_def NewPeer_def verify_write_def Let_def)
qed

lemma serveVerify_conflict:
  assumes "Method r = ''POST''" and "body r = Some req"
    and "Get req ''fp'' \<noteq> []" and "Get req ''email'' \<noteq> []"
    and "failing db = Map.empty"
    and "find (\<lambda>p. FP p = Get req ''fp'') (stored db) = Some peer"
    and "User peer \<noteq> []" and "User peer \<noteq> Get req ''email''"
  shows "serveVerify env db mails r =
           (Failed StatusConflict (''Fingerprint is associated to another email: '' @ User peer),
            db, mails)"
proof -
  from assms(6) have isin: "Get req ''fp'' \<in> set (map FP (stored db))"
    using find_none_iff_not_stored [of "Get req ''fp''" "stored db"] by simp
  show ?thesis
    unfolding serveVerify_post [OF assms(1-4)]
    using isin assms(5-8)
    by (simp add: PeerExists_def GetPeer_def)
qed

lemma serveVerify_same_user:
  assumes "Method r = ''POST''" and "body r = Some req"
    and "Get req ''fp'' \<noteq> []" and "Get req ''email'' \<noteq> []"
    and "failing db = Map.empty"
    and "find (\<lambda>p. FP p = Get req ''fp'') (stored db) = Some peer"
    and "User peer = Get req ''email''" and "\<not> Verified peer"
  shows "\<exists>db'. serveVerify env db mails r =
           (Wrote (VerifiedIs False), db', sendAuthEmail env (Get req ''email'') mails)
         \<and> find (\<lambda>p. FP p = Get req ''fp'') (stored db') = Some (peer\<lparr>Name := Get req ''name''\<rparr>)
         \<and> map FP (stored db') = map FP (stored db)"
proof -
  from assms(6) have isin: "Get req ''fp'' \<in> set (map FP (stored db))"
    using find_none_iff_not_stored [of "Get req ''fp''" "stored db"] by simp
  from assms(6) have fpp: "FP peer = Get req ''fp''" by (rule find_gives_FP)
  have run: "serveVerify env db mails r = verify_known env db mails req (Get req ''email'') peer"
    unfolding serveVerify_post [OF assms(1-4)]
    using isin assms(4-7)
    by (simp add: PeerExists_def GetPeer_def)
  show ?thesis
  proof (cases "Name peer = Get req ''name''")
    case True
    then have same: "peer\<lparr>Name := Get req ''name''\<rparr> = peer" by simp
    from True assms(8) have "verify_known env db mails req (Get req ''email'') peer =
        (Wrote (VerifiedIs False), db, sendAuthEmail env (Get req ''email'') mails)"
      by (simp add: verify_known_def verify_write_def)
    with run assms(6) same show ?thesis by simp
  next
    case False
    let ?db' = "db\<lparr>stored := map (\<lambda>p. if FP p = FP peer then p\<lparr>Name := Get req ''name''\<rparr> else p) (stored db)\<rparr>"
    from False assms(8) have "verify_known env db mails req (Get req ''email'') peer =
        (Wrote (VerifiedIs False), ?db', sendAuthEmail env (Get req ''email'') mails)"
      by (simp add: verify_known_def verify_write_def setName_def)
    moreover have "find (\<lambda>p. FP p = Get req ''fp'') (stored ?db') = Some (peer\<lparr>Name := Get req ''name''\<rparr>)"
      using find_after_setName [of "Get req ''fp''" "Get req ''name''" "stored db"] assms(6) fpp
      by simp
    moreover have "map FP (stored ?db') = map FP (stored db)"
      by (simp add: comp_def if_distrib cong: if_cong)
    ultimately show ?thesis using run by simp
  qed
qed

text \<open>
  C10. A well-formed POST to the verification endpoint claims the fingerprint \<open>fp\<close> for
  the email \<open>e\<close>; the store answers. If no peer with \<open>fp\<close> is stored, an unverified
  peer owned by \<open>e\<close> is added and the mailer is called for \<open>e\<close>. If the stored peer
  is owned by another user, the request fails with status 409 (Conflict), and store
  and mailer are left alone; a stored peer with an empty user has no owner. If the
  stored peer is owned by \<open>e\<close> and not verified, its name in the store becomes the
  claimed name and the mailer is called for \<open>e\<close> again. Each call of the mailer adds
  one notice for \<open>e\<close>.
\<close>

theorem serveVerify_claims:
  assumes "Method r = ''POST''" and "body r = Some req"
    and "Get req ''fp'' \<noteq> []" and "Get req ''email'' \<noteq> []"
    and "failing db = Map.empty"
  shows "(find (\<lambda>p. FP p = Get req ''fp'') (stored db) = None \<longrightarrow>
            serveVerify env db mails r =
              (Wrote (VerifiedIs False),
               db\<lparr>stored := stored db @ [\<lparr>FP = Get req ''fp'', Name = Get req ''name'',
                                          User = Get req ''email'', Kind = Get req ''kind'',
                                          Verified = False\<rparr>]\<rparr>,
               sendAuthEmail env (Get req ''email'') mails))
       \<and> (\<forall>peer. find (\<lambda>p. FP p = Get req ''fp'') (stored db) = Some peer
                  \<and> User peer \<noteq> [] \<and> User peer \<noteq> Get req ''email'' \<longrightarrow>
            serveVerify env db mails r =
              (Failed StatusConflict (''Fingerprint is associated to another email: '' @ User peer),
               db, mails))
       \<and> (\<forall>peer. find (\<lambda>p. FP p = Get req ''fp'') (stored db) = Some peer
                  \<and> User peer = Get req ''email'' \<and> \<not> Verified peer \<longrightarrow>
            (\<exists>db'. serveVerify env db mails r =
                      (Wrote (VerifiedIs False), db', sendAuthEmail env (Get req ''email'') mails)
                  \<and> find (\<lambda>p. FP p = Get req ''fp'') (stored db')
                      = Some (peer\<lparr>Name := Get req ''name''\<rparr>)
                  \<and> map FP (stored db') = map FP (stored db)))
       \<and> (\<exists>n. sendAuthEmail env (Get req ''email'') mails = mails @ [n])"
  using serveVerify_unknown [OF assms, of env mails]
    serveVerify_conflict [OF assms, of _ env mails]
    serveVerify_same_user [OF assms, of _ env mails]
    sendAuthEmail_one_notice [of env "Get req ''email''" mails]
  by blast

theorem serveVerify_claims_witness:
  "serveVerify \<lparr>canSendEmail = \<lambda>e. True, CreateToken = \<lambda>e. Inr ''tok'', PB_HOME_URL = [],
                PathEscape = \<lambda>t. t, DialAndSend = \<lambda>e l. True\<rparr>
     \<lparr>stored = [], failing = Map.empty\<rparr> []
     \<lparr>Method = ''POST'', body = Some [''fp'' \<mapsto> ''X'', ''email'' \<mapsto> ''a@x'', ''name'' \<mapsto> ''laptop'']\<rparr>
   = (Wrote (VerifiedIs False),
      \<lparr>stored = [\<lparr>FP = ''X'', Name = ''laptop'', User = ''a@x'', Kind = [], Verified = False\<rparr>],
        failing = Map.empty\<rparr>,
      [MailSent ''a@x'' ''https://pb.terminal7.dev/pb/tok''])
   \<and> serveVerify \<lparr>canSendEmail = \<lambda>e. True, CreateToken = \<lambda>e. Inr ''tok'', PB_HOME_URL = [],
                PathEscape = \<lambda>t. t, DialAndSend = \<lambda>e l. True\<rparr>
     \<lparr>stored = [\<lparr>FP = ''X'', Name = ''server'', User = ''b@y'', Kind = [], Verified = False\<rparr>],
       failing = Map.empty\<rparr> []
     \<lparr>Method = ''POST'', body = Some [''fp'' \<mapsto> ''X'', ''email'' \<mapsto> ''a@x'', ''name'' \<mapsto> ''laptop'']\<rparr>
   = (Failed 409 ''Fingerprint is associated to another email: b@y'',
      \<lparr>stored = [\<lparr>FP = ''X'', Name = ''server'', User = ''b@y'', Kind = [], Verified = False\<rparr>],
        failing = Map.empty\<rparr>, [])
   \<and> (\<exists>db'. serveVerify \<lparr>canSendEmail = \<lambda>e. True, CreateToken = \<lambda>e. Inr ''tok'', PB_HOME_URL = [],
                PathEscape = \<lambda>t. t, DialAndSend = \<lambda>e l. True\<rparr>
     \<lparr>stored = [\<lparr>FP = ''X'', Name = ''old'', User = ''a@x'', Kind = [], Verified = False\<rparr>],
       failing = Map.empty\<rparr> []
     \<lparr>Method = ''POST'', body = Some [''fp'' \<mapsto> ''X'', ''email'' \<mapsto> ''a@x'', ''name'' \<mapsto> ''laptop'']\<rparr>
   = (Wrote (VerifiedIs False), db', [MailSent ''a@x'' ''https://pb.terminal7.dev/pb/tok''])
     \<and> find (\<lambda>p. FP p = ''X'') (stored db')
          = Some \<lparr>FP = ''X'', Name = ''laptop'', User = ''a@x'', Kind = [], Verified = False\<rparr>)"
proof -
  let ?env = "\<lparr>canSendEmail = \<lambda>e. True, CreateToken = \<lambda>e. Inr ''tok'', PB_HOME_URL = [],
                PathEscape = \<lambda>t. t, DialAndSend = \<lambda>e l. True\<rparr>"
  let ?req = "[''fp'' \<mapsto> ''X'', ''email'' \<mapsto> ''a@x'', ''name'' \<mapsto> ''laptop'']"
  let ?r = "\<lparr>Method = ''POST'', body = Some ?req\<rparr>"
  let ?db0 = "\<lparr>stored = [], failing = Map.empty\<rparr>"
  let ?db1 = "\<lparr>stored = [\<lparr>FP = ''X'', Name = ''server'', User = ''b@y'', Kind = [], Verified = False\<rparr>],
       failing = Map.empty\<rparr>"
  let ?db2 = "\<lparr>stored = [\<lparr>FP = ''X'', Name = ''old'', User = ''a@x'', Kind = [], Verified = False\<rparr>],
       failing = Map.empty\<rparr>"
  have h1: "Method ?r = ''POST''" by simp
  have h2: "body ?r = Some ?req" by simp
  have h3: "Get ?req ''fp'' \<noteq> []" by (simp add: Get_def)
  have h4: "Get ?req ''email'' \<noteq> []" by (simp add: Get_def)
  have g: "Get ?req ''fp'' = ''X''" "Get ?req ''email'' = ''a@x''" "Get ?req ''name'' = ''laptop''"
    "Get ?req ''kind'' = []"
    by (simp_all add: Get_def)
  have mail: "sendAuthEmail ?env ''a@x'' [] = [MailSent ''a@x'' ''https://pb.terminal7.dev/pb/tok'']"
    by (simp add: sendAuthEmail_def createTempURL_def DefaultHomeUrl_def)
  have f0: "failing ?db0 = Map.empty" by simp
  have f1: "failing ?db1 = Map.empty" by simp
  have f2: "failing ?db2 = Map.empty" by simp
  have a: "serveVerify ?env ?db0 [] ?r =
      (Wrote (VerifiedIs False),
       \<lparr>stored = [\<lparr>FP = ''X'', Name = ''laptop'', User = ''a@x'', Kind = [], Verified = False\<rparr>],
         failing = Map.empty\<rparr>,
       [MailSent ''a@x'' ''https://pb.terminal7.dev/pb/tok''])"
    using serveVerify_claims [OF h1 h2 h3 h4 f0, of ?env "[]"] by (simp add: g mail)
  have b: "serveVerify ?env ?db1 [] ?r =
      (Failed 409 ''Fingerprint is associated to another email: b@y'', ?db1, [])"
    using serveVerify_claims [OF h1 h2 h3 h4 f1, of ?env "[]"]
    by (simp add: g StatusConflict_def)
  have c: "\<exists>db'. serveVerify ?env ?db2 [] ?r =
      (Wrote (VerifiedIs False), db', [MailSent ''a@x'' ''https://pb.terminal7.dev/pb/tok''])
     \<and> find (\<lambda>p. FP p = ''X'') (stored db')
          = Some \<lparr>FP = ''X'', Name = ''laptop'', User = ''a@x'', Kind = [], Verified = False\<rparr>"
    using serveVerify_claims [OF h1 h2 h3 h4 f2, of ?env "[]"]
    by (simp add: g mail) blast
  from a b c show ?thesis by blast
qed

section \<open>The shared map of the read task\<close>

text \<open>
  The two accounts of the loop agree at the sends: what \<open>readLoop\<close> records as
  forwarded is what the newest message held by the hub is right after each send,
  whenever the variable and its map stand for the same map at the start.
\<close>

lemma readShared_at_sends:
  "same_map s msg \<Longrightarrow>
   map last (after_sends (readShared (Some doc) s rs)) = requests (fst (readLoop (Some doc) msg rs))"
proof (induction rs arbitrary: s msg)
  case Nil
  show ?case by simp
next
  case (Cons r rs)
  show ?case
  proof (cases r)
    case (ReadErr e)
    then show ?thesis by simp
  next
    case Null
    then show ?thesis by simp
  next
    case (Frame f)
    let ?s1 = "fst (decode s f)"
    let ?a = "snd (decode s f)"
    let ?s4 = "(assign (assign ?s1 ?a ''source_fp'' (fingerprint doc)) ?a ''source_name'' (name doc))
                 \<lparr>sent := sent (assign (assign ?s1 ?a ''source_fp'' (fingerprint doc)) ?a
                                 ''source_name'' (name doc)) @ [?a]\<rparr>"
    obtain m0 where rj: "ReadJSON msg (Frame f) = Some m0"
      by (cases msg) simp_all
    let ?m = "m0(''source_fp'' \<mapsto> fingerprint doc, ''source_name'' \<mapsto> name doc)"
    have sm: "same_map ?s4 (Some ?m)" and lastv: "last (hub_view ?s4) = ?m"
    proof -
      show "same_map ?s4 (Some ?m)"
      proof (cases msg)
        case None
        with Cons.prems rj show ?thesis
          by (simp add: same_map_def decode_def assign_def)
      next
        case (Some m)
        with Cons.prems rj show ?thesis
          by (auto simp: same_map_def decode_def assign_def split: option.splits)
      qed
      show "last (hub_view ?s4) = ?m"
      proof (cases msg)
        case None
        with Cons.prems rj show ?thesis
          by (simp add: same_map_def decode_def assign_def hub_view_def)
      next
        case (Some m)
        with Cons.prems rj show ?thesis
          by (auto simp: same_map_def decode_def assign_def hub_view_def split: option.splits)
      qed
    qed
    have lhs: "map last (after_sends (readShared (Some doc) s (Frame f # rs)))
        = last (hub_view ?s4) # map last (after_sends (readShared (Some doc) ?s4 rs))"
      by (simp add: Let_def split_beta)
    have rhs: "requests (fst (readLoop (Some doc) msg (Frame f # rs)))
        = ?m # requests (fst (readLoop (Some doc) (Some ?m) rs))"
      using rj by (simp add: Let_def split_beta)
    from Cons.IH [OF sm] lastv lhs rhs Frame show ?thesis by simp
  qed
qed

text \<open>
  C3, on the code. The session of a known fingerprint holds the empty document (see
  C6), so what the read task writes under \<^verbatim>\<open>source_fp\<close> and \<^verbatim>\<open>source_name\<close> is the
  empty string, not the persisted fingerprint and name. And the message forwarded is
  the one map the next frame is decoded into: after a first frame is forwarded, a
  second frame with \<^verbatim>\<open>source_fp\<close> set by the client puts that value into the message
  the hub already holds, until the task assigns again.
\<close>

theorem readPump_forwards_shared_map:
  "serveWs \<lparr>EXISTS = \<lambda>k. Inr True,
            HGETALL = \<lambda>k. Inr [''user'', ''alice'', ''fingerprint'', ''X'', ''name'', ''laptop'',
                                 ''kind'', ''webexec'']\<rparr>
     [] \<lparr>query = [''fingerprint'' \<mapsto> ''X''], upgrade = Some 3\<rparr>
   = (Serving \<lparr>ws = Some 3, send = [], authenticated = True,
               pd = Some \<lparr>user = [], fingerprint = [], name = [], kind = []\<rparr>\<rparr>, [])
   \<and> map (\<lambda>m. (m ''target'', m ''source_fp'', m ''source_name''))
       (requests (fst (readPump \<lparr>ws = Some 3, send = [], authenticated = True,
                                 pd = Some \<lparr>user = [], fingerprint = [], name = [], kind = []\<rparr>\<rparr>
                         [Frame [''target'' \<mapsto> ''B'']])))
     = [(Some ''B'', Some [], Some [])]
   \<and> map (map_step (map (\<lambda>m. m ''source_fp'')))
       (readShared (Some \<lparr>user = [], fingerprint = [], name = [], kind = []\<rparr>)
          \<lparr>heap = [], var = None, sent = []\<rparr>
          [Frame [''target'' \<mapsto> ''B''], Frame [''target'' \<mapsto> ''B'', ''source_fp'' \<mapsto> ''Z'']])
     = [AfterDecode [], AfterAssign [], AfterAssign [], AfterSend [Some []],
        AfterDecode [Some ''Z''], AfterAssign [Some []], AfterAssign [Some []],
        AfterSend [Some [], Some []]]"
proof -
  have a: "serveWs \<lparr>EXISTS = \<lambda>k. Inr True,
            HGETALL = \<lambda>k. Inr [''user'', ''alice'', ''fingerprint'', ''X'', ''name'', ''laptop'',
                                 ''kind'', ''webexec'']\<rparr>
     [] \<lparr>query = [''fingerprint'' \<mapsto> ''X''], upgrade = Some 3\<rparr>
   = (Serving \<lparr>ws = Some 3, send = [], authenticated = True,
               pd = Some \<lparr>user = [], fingerprint = [], name = [], kind = []\<rparr>\<rparr>, [])"
    by (simp add: serveWs_def newPeer_def Get_def Let_def ScanStruct_def PeerDoc_fields_def
          exported_def Upgrade_def)
  have b: "map (\<lambda>m. (m ''target'', m ''source_fp'', m ''source_name''))
       (requests (fst (readPump \<lparr>ws = Some 3, send = [], authenticated = True,
                                 pd = Some \<lparr>user = [], fingerprint = [], name = [], kind = []\<rparr>\<rparr>
                         [Frame [''target'' \<mapsto> ''B'']])))
     = [(Some ''B'', Some [], Some [])]"
    by (simp add: readPump_def)
  have c: "map (map_step (map (\<lambda>m. m ''source_fp'')))
       (readShared (Some \<lparr>user = [], fingerprint = [], name = [], kind = []\<rparr>)
          \<lparr>heap = [], var = None, sent = []\<rparr>
          [Frame [''target'' \<mapsto> ''B''], Frame [''target'' \<mapsto> ''B'', ''source_fp'' \<mapsto> ''Z'']])
     = [AfterDecode [], AfterAssign [], AfterAssign [], AfterSend [Some []],
        AfterDecode [Some ''Z''], AfterAssign [Some []], AfterAssign [Some []],
        AfterSend [Some [], Some []]]"
    by (simp add: decode_def assign_def hub_view_def)
  from a b c show ?thesis by simp
qed

theorem readPump_forwards_shared_map_witness:
  "map (map_step (map (\<lambda>m. m ''source_fp'')))
       (readShared (Some \<lparr>user = [], fingerprint = [], name = [], kind = []\<rparr>)
          \<lparr>heap = [], var = None, sent = []\<rparr>
          [Frame [''target'' \<mapsto> ''B''], Frame [''target'' \<mapsto> ''B'', ''source_fp'' \<mapsto> ''Z'']])
     = [AfterDecode [], AfterAssign [], AfterAssign [], AfterSend [Some []],
        AfterDecode [Some ''Z''], AfterAssign [Some []], AfterAssign [Some []],
        AfterSend [Some [], Some []]]"
  by (rule conjunct2 [OF conjunct2 [OF readPump_forwards_shared_map]])

section \<open>The scan of the persisted document\<close>

lemma scan_pairs_PeerDoc: "scan_pairs src d = d"
  by (induction src d rule: scan_pairs.induct) (simp_all add: PeerDoc_fields_def exported_def)

text \<open>
  C6, on the code. When the store knows the fingerprint, the document scanned is
  empty whatever is stored: no field of \<^verbatim>\<open>PeerDoc\<close> is exported, so the scan assigns
  none. The claimed name, user and kind are therefore compared with empty strings. A
  connection that claims none of the three is authenticated with no error, also
  when what is stored differs from its claims; any other connection gets
  \<open>PeerChanged\<close>, also when its claims are what is stored.
\<close>

theorem newPeer_compares_with_empty_document:
  assumes "Get q ''fingerprint'' \<noteq> []"
    and "EXISTS redis (''peer:'' @ Get q ''fingerprint'') = Inr True"
    and "HGETALL redis (''peer:'' @ Get q ''fingerprint'') = Inr values"
    and "even (length values)"
  shows "newPeer redis q =
     (if Get q ''name'' = [] \<and> Get q ''user'' = [] \<and> Get q ''kind'' = []
      then (Some \<lparr>ws = None, send = [], authenticated = True,
                  pd = Some \<lparr>user = [], fingerprint = [], name = [], kind = []\<rparr>\<rparr>, None)
      else (Some \<lparr>ws = None, send = [], authenticated = False,
                  pd = Some \<lparr>user = [], fingerprint = [], name = [], kind = []\<rparr>\<rparr>,
            Some PeerChanged))"
  using assms by (auto simp: newPeer_def Let_def ScanStruct_def scan_pairs_PeerDoc)

theorem newPeer_compares_with_empty_document_witness:
  "newPeer \<lparr>EXISTS = \<lambda>k. Inr True,
            HGETALL = \<lambda>k. Inr [''user'', ''alice'', ''fingerprint'', ''X'', ''name'', ''laptop'',
                                 ''kind'', ''webexec'']\<rparr>
     [''fingerprint'' \<mapsto> ''X'']
   = (Some \<lparr>ws = None, send = [], authenticated = True,
             pd = Some \<lparr>user = [], fingerprint = [], name = [], kind = []\<rparr>\<rparr>, None)
   \<and> newPeer \<lparr>EXISTS = \<lambda>k. Inr True,
            HGETALL = \<lambda>k. Inr [''user'', ''alice'', ''fingerprint'', ''X'', ''name'', ''laptop'',
                                 ''kind'', ''webexec'']\<rparr>
     [''fingerprint'' \<mapsto> ''X'', ''name'' \<mapsto> ''laptop'', ''user'' \<mapsto> ''alice'', ''kind'' \<mapsto> ''webexec'']
   = (Some \<lparr>ws = None, send = [], authenticated = False,
             pd = Some \<lparr>user = [], fingerprint = [], name = [], kind = []\<rparr>\<rparr>, Some PeerChanged)"
proof -
  let ?vs = "[''user'', ''alice'', ''fingerprint'', ''X'', ''name'', ''laptop'', ''kind'', ''webexec'']"
  let ?redis = "\<lparr>EXISTS = \<lambda>k. Inr True, HGETALL = \<lambda>k. Inr ?vs\<rparr>"
  let ?q1 = "[''fingerprint'' \<mapsto> ''X'']"
  let ?q2 = "[''fingerprint'' \<mapsto> ''X'', ''name'' \<mapsto> ''laptop'', ''user'' \<mapsto> ''alice'', ''kind'' \<mapsto> ''webexec'']"
  have ev: "even (length ?vs)" by simp
  have e1: "EXISTS ?redis (''peer:'' @ Get ?q1 ''fingerprint'') = Inr True"
    and g1: "HGETALL ?redis (''peer:'' @ Get ?q1 ''fingerprint'') = Inr ?vs"
    and f1: "Get ?q1 ''fingerprint'' \<noteq> []"
    by (simp_all add: Get_def)
  have e2: "EXISTS ?redis (''peer:'' @ Get ?q2 ''fingerprint'') = Inr True"
    and g2: "HGETALL ?redis (''peer:'' @ Get ?q2 ''fingerprint'') = Inr ?vs"
    and f2: "Get ?q2 ''fingerprint'' \<noteq> []"
    by (simp_all add: Get_def)
  have a: "newPeer ?redis ?q1 = (Some \<lparr>ws = None, send = [], authenticated = True,
             pd = Some \<lparr>user = [], fingerprint = [], name = [], kind = []\<rparr>\<rparr>, None)"
    using newPeer_compares_with_empty_document [OF f1 e1 g1 ev] by (simp add: Get_def)
  have b: "newPeer ?redis ?q2 = (Some \<lparr>ws = None, send = [], authenticated = False,
             pd = Some \<lparr>user = [], fingerprint = [], name = [], kind = []\<rparr>\<rparr>, Some PeerChanged)"
    using newPeer_compares_with_empty_document [OF f2 e2 g2 ev] by (simp add: Get_def)
  from a b show ?thesis by simp
qed

end
